theory Spec2Isabelle
  imports Complex_Main
begin

section \<open>The Snowflake import plugin: data model\<close>

text \<open>
  The plugin (\<^verbatim>\<open>index.ts\<close>) is embedded function by function. A JavaScript number is
  a binary64 value: it is modelled as the rational it denotes, and every \<open>+\<close>, \<open>*\<close>,
  \<open>/\<close> and \<open>**\<close> of the source as the exact operation followed by the rounding to the
  nearest binary64 value. \<open>NaN\<close>, the infinities and the subnormal numbers are outside
  the model; where the source divides, the properties proved about the quotient are
  about a non-zero divisor.
\<close>

type_synonym number = rat

subsection \<open>The arithmetic of the runtime\<close>

text \<open>The number of binary digits of a natural number.\<close>

fun bitLength :: "nat \<Rightarrow> nat" where
  "bitLength n = (if n = 0 then 0 else Suc (bitLength (n div 2)))"

definition pow2 :: "int \<Rightarrow> number" where
  "pow2 e = (if e \<ge> 0 then 2 ^ nat e else 1 / 2 ^ nat (- e))"

text \<open>The binary exponent of a number other than 0: the \<open>e\<close> with \<open>2 ^ e \<le> \<bar>x\<bar> < 2 ^ (e + 1)\<close>.\<close>

definition exponentOf :: "number \<Rightarrow> int" where
  "exponentOf x =
     (if \<bar>x\<bar> \<ge> 1 then int (bitLength (nat \<lfloor>\<bar>x\<bar>\<rfloor>)) - 1
      else - int (bitLength (nat (\<lceil>1 / \<bar>x\<bar>\<rceil> - 1))))"

text \<open>Rounding to the nearest integer, a tie going to the even one.\<close>

definition roundHalfEven :: "number \<Rightarrow> int" where
  "roundHalfEven s =
     (let f = \<lfloor>s\<rfloor>; d = s - of_int f
      in if d < 1 / 2 then f else if d > 1 / 2 then f + 1 else if even f then f else f + 1)"

text \<open>
  The nearest binary64 value: the number is scaled so that 53 binary digits stand
  before the point, rounded there and scaled back.
\<close>

definition binary64 :: "number \<Rightarrow> number" where
  "binary64 x =
     (if x = 0 then 0
      else let e = exponentOf x - 52 in of_int (roundHalfEven (x / pow2 e)) * pow2 e)"

definition js_add :: "number \<Rightarrow> number \<Rightarrow> number" where
  "js_add a b = binary64 (a + b)"

definition js_mul :: "number \<Rightarrow> number \<Rightarrow> number" where
  "js_mul a b = binary64 (a * b)"

definition js_div :: "number \<Rightarrow> number \<Rightarrow> number" where
  "js_div a b = binary64 (a / b)"

text \<open>\<^verbatim>\<open>a ** n\<close>; the source only raises 2, whose powers are binary64 values.\<close>

definition js_pow :: "number \<Rightarrow> nat \<Rightarrow> number" where
  "js_pow a n = binary64 (a ^ n)"

subsection \<open>Values\<close>

text \<open>
  A \<^verbatim>\<open>Date\<close> is represented by what its accessors return in the local time zone of
  the process.
\<close>

record date =
  getTimezoneOffset :: int
  getFullYear :: int
  getMonth :: int
  getDate :: int
  getHours :: int
  getMinutes :: int
  getSeconds :: int

text \<open>
  Values of type \<^verbatim>\<open>any\<close>: what a column of a fetched row or a parsed JSON document can
  hold. An object is the list of its own properties in insertion order; the keys that
  look like array indices, which JavaScript enumerates before the others, are outside
  the model.
\<close>

datatype jsval =
    JUndefined
  | JNull
  | JBool bool
  | JNum number
  | JStr string
  | JDate date
  | JArr "jsval list"
  | JObj "(string \<times> jsval) list"

type_synonym obj = "(string \<times> jsval) list"

text \<open>Exceptions: the errors the plugin throws itself, and those of the runtime.\<close>

datatype exn =
    Error string
  | QueryFailedBecause "exn option"
  | TypeError
  | SyntaxError
  | DriverError string

datatype IMPORT_MECHANISMS = CONTINUOUS | HISTORICAL

text \<open>
  \<open>batchSize\<close> and \<open>frequency\<close> hold \<^verbatim>\<open>Number(config.batchSize)\<close> and
  \<^verbatim>\<open>Number(config.frequency)\<close>: the configured strings are taken to be numeric.
\<close>

record config =
  table :: string
  orderBy :: string
  batchSize :: number
  frequency :: number
  transformationName :: string
  importMechanism :: IMPORT_MECHANISMS

record global =
  initialOffset :: number
  totalRows :: number

record attachment =
  contents :: string

record attachments =
  rowToEventMap :: "attachment option"
  propertyConfigJson :: "attachment option"

record meta =
  config :: config
  global :: global
  attachments :: attachments

text \<open>
  \<^verbatim>\<open>interface ImportEventsJobPayload { offset?: number; retriesPerformedSoFar: number }\<close>.
  The retry count only ever starts at 0 and grows by 1, so it is a natural number.
\<close>

record ImportEventsJobPayload =
  offset :: "number option"
  retriesPerformedSoFar :: nat

record ExecuteQueryResponse =
  error :: "exn option"
  queryResult :: "obj list option"

record TransformedPluginEvent =
  event :: jsval
  properties :: obj

text \<open>
  The statements sent to Snowflake, by their parts: the count of \<open>setupPlugin\<close> and the
  batch query of \<open>importAndIngestEvents\<close> with its bound values.
\<close>

datatype sql =
    SelectCount string
  | SelectBatch string string number "number list"

text \<open>
  What the plugin consumes from outside: the runtime's \<^verbatim>\<open>JSON.parse\<close>, its conversion
  of a value to a string and to a number, and the Snowflake connection, which resolves
  with the rows (possibly none at all) or rejects.
\<close>

record builtins =
  JSON_parse :: "jsval \<Rightarrow> exn + jsval"
  ToString :: "jsval \<Rightarrow> string"
  ToNumber :: "jsval \<Rightarrow> number"
  execute :: "sql \<Rightarrow> exn + obj list option"

text \<open>The lines written to the console, by the values they interpolate.\<close>

datatype log_entry =
    SpinningUp
  | TotalRowsFound
  | UnableToProcessSkipped number number
  | DoneImportingHistorical
  | UnableToProcessRetrying number number number "exn option"
  | ProcessedRows number number nat

subsection \<open>The key-value stores of the host\<close>

text \<open>
  \<open>cache\<close> (the fast counter store) and \<open>storage\<close> (the durable one) map keys to
  numbers; \<open>get\<close> takes the default to return for a missing key, and \<open>incr\<close> adds 1 to
  the number under the key, a missing key counting as 0.
\<close>

type_synonym kv = "string \<rightharpoonup> number"

definition REDIS_OFFSET_KEY :: string where
  "REDIS_OFFSET_KEY = ''import_offset''"

definition REDIS_TOTAL_ROWS_KEY :: string where
  "REDIS_TOTAL_ROWS_KEY = ''total_rows_snapshot''"

definition kv_get :: "kv \<Rightarrow> string \<Rightarrow> number \<Rightarrow> number" where
  "kv_get m k d = (case m k of None \<Rightarrow> d | Some v \<Rightarrow> v)"

definition kv_set :: "kv \<Rightarrow> string \<Rightarrow> number \<Rightarrow> kv" where
  "kv_set m k v = m(k \<mapsto> v)"

definition kv_incr :: "kv \<Rightarrow> string \<Rightarrow> kv" where
  "kv_incr m k = m(k \<mapsto> js_add (kv_get m k 0) 1)"

subsection \<open>Truthiness and objects\<close>

fun truthy :: "jsval \<Rightarrow> bool" where
  "truthy JUndefined = False"
| "truthy JNull = False"
| "truthy (JBool b) = b"
| "truthy (JNum n) = (n \<noteq> 0)"
| "truthy (JStr s) = (s \<noteq> [])"
| "truthy (JDate d) = True"
| "truthy (JArr xs) = True"
| "truthy (JObj kvs) = True"

text \<open>\<^verbatim>\<open>if (payload.offset)\<close>: an absent offset and the offset 0 are both falsy.\<close>

fun truthy_number :: "number option \<Rightarrow> bool" where
  "truthy_number None = False"
| "truthy_number (Some n) = (n \<noteq> 0)"

text \<open>Reading a property that the object does not have gives \<^verbatim>\<open>undefined\<close>.\<close>

definition obj_get :: "obj \<Rightarrow> string \<Rightarrow> jsval" where
  "obj_get ob k = (case map_of ob k of None \<Rightarrow> JUndefined | Some v \<Rightarrow> v)"

text \<open>Assignment keeps the place of a property that exists and appends a new one.\<close>

fun obj_set :: "obj \<Rightarrow> string \<Rightarrow> jsval \<Rightarrow> obj" where
  "obj_set [] k v = [(k, v)]"
| "obj_set ((k', v') # ob) k v =
     (if k' = k then (k, v) # ob else (k', v') # obj_set ob k v)"

fun obj_assign :: "obj \<Rightarrow> obj \<Rightarrow> obj" where
  "obj_assign ob [] = ob"
| "obj_assign ob ((k, v) # kvs) = obj_assign (obj_set ob k v) kvs"

fun digit_char :: "nat \<Rightarrow> char" where
  "digit_char n = char_of (48 + n)"

fun show_nat :: "nat \<Rightarrow> string" where
  "show_nat n =
     (if n < 10 then [digit_char n] else show_nat (n div 10) @ [digit_char (n mod 10)])"

definition index_entries :: "jsval list \<Rightarrow> obj" where
  "index_entries xs = zip (map show_nat [0..<length xs]) xs"

text \<open>
  The own enumerable properties of a value, as the spread \<^verbatim>\<open>...v\<close> copies them: those
  of an object, the indices of an array or of a string, nothing for the rest.
\<close>

fun own_entries :: "jsval \<Rightarrow> obj" where
  "own_entries (JObj kvs) = kvs"
| "own_entries (JArr xs) = index_entries xs"
| "own_entries (JStr s) = index_entries (map (\<lambda>c. JStr [c]) s)"
| "own_entries v = []"

text \<open>
  Reading \<^verbatim>\<open>v[k]\<close>: a \<^verbatim>\<open>TypeError\<close> on \<^verbatim>\<open>null\<close> and \<^verbatim>\<open>undefined\<close>, otherwise the own
  property, with \<^verbatim>\<open>length\<close> for arrays and strings. Names inherited from the prototypes
  (\<^verbatim>\<open>constructor\<close>, \<^verbatim>\<open>toString\<close>, ...) are not modelled.
\<close>

fun readable_entries :: "jsval \<Rightarrow> obj" where
  "readable_entries (JArr xs) = index_entries xs @ [(''length'', JNum (of_nat (length xs)))]"
| "readable_entries (JStr s) =
     index_entries (map (\<lambda>c. JStr [c]) s) @ [(''length'', JNum (of_nat (length s)))]"
| "readable_entries v = own_entries v"

fun js_get :: "jsval \<Rightarrow> string \<Rightarrow> exn + jsval" where
  "js_get JUndefined k = Inl TypeError"
| "js_get JNull k = Inl TypeError"
| "js_get v k = Inr (obj_get (readable_entries v) k)"

text \<open>A value used as a property name or joined into a string: a string stays as it is.\<close>

definition toPropertyKey :: "builtins \<Rightarrow> jsval \<Rightarrow> string" where
  "toPropertyKey b v = (case v of JStr s \<Rightarrow> s | _ \<Rightarrow> ToString b v)"

section \<open>Formatting helpers\<close>

text \<open>
  \<open>sanitizeSql\<close> deletes every character that the class \<^verbatim>\<open>[^\w\d_]\<close> matches: it keeps
  the ASCII letters, the digits and the underscore.
\<close>

definition is_word_char :: "char \<Rightarrow> bool" where
  "is_word_char c =
     (let n = (of_char c :: nat)
      in (65 \<le> n \<and> n \<le> 90) \<or> (97 \<le> n \<and> n \<le> 122) \<or> (48 \<le> n \<and> n \<le> 57) \<or> n = 95)"

definition sanitizeSql :: "string \<Rightarrow> string" where
  "sanitizeSql text = filter is_word_char text"

definition sanitizeSqlIdentifier :: "string \<Rightarrow> string" where
  "sanitizeSqlIdentifier unquotedIdentifier =
     ''identifier('' @ [CHR 0x27] @ sanitizeSql unquotedIdentifier @ [CHR 0x27] @ '')''"

text \<open>Case conversion and white space, on ASCII.\<close>

definition toUpperCase_char :: "char \<Rightarrow> char" where
  "toUpperCase_char c =
     (let n = (of_char c :: nat) in if 97 \<le> n \<and> n \<le> 122 then char_of (n - 32) else c)"

definition toLowerCase_char :: "char \<Rightarrow> char" where
  "toLowerCase_char c =
     (let n = (of_char c :: nat) in if 65 \<le> n \<and> n \<le> 90 then char_of (n + 32) else c)"

definition toUpperCase :: "string \<Rightarrow> string" where
  "toUpperCase s = map toUpperCase_char s"

definition toLowerCase :: "string \<Rightarrow> string" where
  "toLowerCase s = map toLowerCase_char s"

definition is_space_char :: "char \<Rightarrow> bool" where
  "is_space_char c = (let n = (of_char c :: nat) in n = 32 \<or> (9 \<le> n \<and> n \<le> 13))"

text \<open>
  \<open>toTitleCase\<close> rewrites every match of \<^verbatim>\<open>/\w\S*/g\<close>: a match starts at a word
  character and runs up to the next white space; its first character is put in upper
  case and the others in lower case. The flag says whether the scan is inside a match.
\<close>

fun titleCaseScan :: "bool \<Rightarrow> string \<Rightarrow> string" where
  "titleCaseScan inMatch [] = []"
| "titleCaseScan inMatch (c # cs) =
     (if inMatch then
        (if is_space_char c then c # titleCaseScan False cs
         else toLowerCase_char c # titleCaseScan True cs)
      else
        (if is_word_char c then toUpperCase_char c # titleCaseScan True cs
         else c # titleCaseScan False cs))"

definition toTitleCase :: "string \<Rightarrow> string" where
  "toTitleCase str = titleCaseScan False str"

definition show_int :: "int \<Rightarrow> string" where
  "show_int i = (if i < 0 then ''-'' @ show_nat (nat (- i)) else show_nat (nat i))"

text \<open>\<open>pad\<close> of \<open>formatDateToIsoString\<close>: the integer part of the absolute value, on two digits.\<close>

definition pad :: "number \<Rightarrow> string" where
  "pad num =
     (let norm = nat \<lfloor>\<bar>num\<bar>\<rfloor> in (if norm < 10 then ''0'' else []) @ show_nat norm)"

text \<open>The remainder \<^verbatim>\<open>%\<close> takes the sign of the dividend.\<close>

definition js_rem :: "int \<Rightarrow> int \<Rightarrow> int" where
  "js_rem a b = sgn a * (\<bar>a\<bar> mod \<bar>b\<bar>)"

definition formatDate :: "date \<Rightarrow> string" where
  "formatDate d =
     (let tzo = - getTimezoneOffset d;
          dif = (if tzo \<ge> 0 then ''+'' else ''-'')
      in show_int (getFullYear d) @
         ''-'' @ pad (of_int (getMonth d + 1)) @
         ''-'' @ pad (of_int (getDate d)) @
         ''T'' @ pad (of_int (getHours d)) @
         '':'' @ pad (of_int (getMinutes d)) @
         '':'' @ pad (of_int (getSeconds d)) @
         dif @ pad (js_div (of_int tzo) 60) @
         '':'' @ pad (of_int (js_rem tzo 60)))"

text \<open>
  \<open>formatDateToIsoString\<close> calls the accessors of its argument: on anything but a
  \<^verbatim>\<open>Date\<close> the first call, \<^verbatim>\<open>date.getTimezoneOffset()\<close>, throws a \<^verbatim>\<open>TypeError\<close>.
\<close>

fun formatDateToIsoString :: "jsval \<Rightarrow> exn + string" where
  "formatDateToIsoString (JDate d) = Inr (formatDate d)"
| "formatDateToIsoString v = Inl TypeError"

text \<open>\<^verbatim>\<open>str.toUpperCase()\<close> on a value: a \<^verbatim>\<open>TypeError\<close> unless it is a string.\<close>

fun stringOf :: "jsval \<Rightarrow> exn + string" where
  "stringOf (JStr s) = Inr s"
| "stringOf v = Inl TypeError"

fun split_on :: "char \<Rightarrow> string \<Rightarrow> string list" where
  "split_on d [] = [[]]"
| "split_on d (c # cs) =
     (if c = d then [] # split_on d cs
      else (case split_on d cs of [] \<Rightarrow> [[c]] | w # ws \<Rightarrow> (c # w) # ws))"

fun join_with :: "string \<Rightarrow> string list \<Rightarrow> string" where
  "join_with sep [] = []"
| "join_with sep [w] = w"
| "join_with sep (w # ws) = w @ sep @ join_with sep ws"

fun includes_str :: "string \<Rightarrow> string \<Rightarrow> bool" where
  "includes_str [] p = (p = [])"
| "includes_str (c # cs) p = (take (length p) (c # cs) = p \<or> includes_str cs p)"

section \<open>The transformations\<close>

subsection \<open>default\<close>

text \<open>
  \<^verbatim>\<open>{ event, properties: { timestamp, distinct_id, ...JSON.parse(properties), source } }\<close>:
  a column that the row lacks is \<^verbatim>\<open>undefined\<close>; \<^verbatim>\<open>JSON.parse\<close> may throw.
\<close>

definition default_transform :: "builtins \<Rightarrow> obj \<Rightarrow> exn + TransformedPluginEvent" where
  "default_transform b row =
     (case JSON_parse b (obj_get row ''properties'') of
        Inl e \<Rightarrow> Inl e
      | Inr parsed \<Rightarrow>
          Inr \<lparr> event = obj_get row ''event'',
                properties =
                  obj_set
                    (obj_assign
                       (obj_set (obj_set [] ''timestamp'' (obj_get row ''timestamp''))
                          ''distinct_id'' (obj_get row ''distinct_id''))
                       (own_entries parsed))
                    ''source'' (JStr ''snowflake_import'') \<rparr>)"

subsection \<open>JSON Map\<close>

text \<open>The loop over \<^verbatim>\<open>Object.entries(row)\<close>, with the event built so far.\<close>

fun jsonMapEntries ::
  "builtins \<Rightarrow> jsval \<Rightarrow> obj \<Rightarrow> TransformedPluginEvent \<Rightarrow> exn + TransformedPluginEvent" where
  "jsonMapEntries b m [] eventToIngest = Inr eventToIngest"
| "jsonMapEntries b m ((colName, colValue) # entries) eventToIngest =
     (case js_get m colName of
        Inl e \<Rightarrow> Inl e
      | Inr target \<Rightarrow>
          if \<not> truthy target then jsonMapEntries b m entries eventToIngest
          else if target = JStr ''event'' then
            jsonMapEntries b m entries (eventToIngest\<lparr>event := colValue\<rparr>)
          else
            jsonMapEntries b m entries
              (eventToIngest\<lparr>properties :=
                 obj_set (properties eventToIngest) (toPropertyKey b target) colValue\<rparr>))"

definition jsonMap_transform ::
  "builtins \<Rightarrow> attachments \<Rightarrow> obj \<Rightarrow> exn + TransformedPluginEvent" where
  "jsonMap_transform b att row =
     (case rowToEventMap att of
        None \<Rightarrow> Inl (Error ''Row to event mapping JSON file not provided!'')
      | Some file \<Rightarrow>
          (case JSON_parse b (JStr (contents file)) of
             Inl e \<Rightarrow> Inl (Error ''Row to event mapping JSON file contains invalid JSON!'')
           | Inr m \<Rightarrow> jsonMapEntries b m row \<lparr> event = JStr [], properties = [] \<rparr>))"

subsection \<open>passthrough\<close>

text \<open>
  The \<^verbatim>\<open>types\<close> it collects and the formatted timestamp are not used, but formatting
  the column \<^verbatim>\<open>COMPLETED_AT_ET\<close> throws when the column is not a date.
\<close>

definition passthrough_transform :: "obj \<Rightarrow> exn + TransformedPluginEvent" where
  "passthrough_transform row =
     (case formatDateToIsoString (obj_get row ''COMPLETED_AT_ET'') of
        Inl e \<Rightarrow> Inl e
      | Inr timestamp \<Rightarrow> Inr \<lparr> event = JStr ''test_event'', properties = row \<rparr>)"

subsection \<open>Cleaned-Up Properties\<close>

text \<open>Sequencing of steps that may throw: the first exception ends the computation.\<close>

definition bind_exn :: "exn + 'a \<Rightarrow> ('a \<Rightarrow> exn + 'b) \<Rightarrow> exn + 'b" where
  "bind_exn r f = (case r of Inl e \<Rightarrow> Inl e | Inr x \<Rightarrow> f x)"

text \<open>\<^verbatim>\<open>row[k.toUpperCase()] || row[k.toLowerCase()]\<close>\<close>

definition rowEitherCase :: "obj \<Rightarrow> string \<Rightarrow> jsval" where
  "rowEitherCase row k =
     (let upper = obj_get row (toUpperCase k)
      in if truthy upper then upper else obj_get row (toLowerCase k))"

text \<open>
  The inner loop over the segments of a column name:
  \<^verbatim>\<open>splitKey[i] = replacements[originalSegment] || toTitleCase(splitKey[i])\<close>.
\<close>

fun rewriteSegments :: "jsval \<Rightarrow> string list \<Rightarrow> exn + jsval list" where
  "rewriteSegments replacements [] = Inr []"
| "rewriteSegments replacements (originalSegment # segments) =
     bind_exn (js_get replacements originalSegment) (\<lambda>replacement.
     bind_exn (rewriteSegments replacements segments) (\<lambda>others.
       Inr ((if truthy replacement then replacement else JStr (toTitleCase originalSegment))
            # others)))"

text \<open>The loop over \<^verbatim>\<open>Object.keys(row)\<close> that fills \<^verbatim>\<open>formattedRow\<close>.\<close>

fun formatRow ::
  "builtins \<Rightarrow> jsval \<Rightarrow> string \<Rightarrow> jsval list \<Rightarrow> obj \<Rightarrow> string list \<Rightarrow> obj \<Rightarrow> exn + obj" where
  "formatRow b replacements eventColumn specialColumns row [] formattedRow = Inr formattedRow"
| "formatRow b replacements eventColumn specialColumns row (key # keys) formattedRow =
     bind_exn (rewriteSegments replacements (split_on CHR ''_'' key)) (\<lambda>splitKey.
       let newKey = (if key = eventColumn then key
                     else join_with '' '' (map (toPropertyKey b) splitKey))
       in formatRow b replacements eventColumn specialColumns row keys
            (if JStr key \<in> set specialColumns then formattedRow
             else obj_set formattedRow newKey (obj_get row key)))"

text \<open>The loop that reformats every property whose name contains \<^verbatim>\<open>timestamp\<close>.\<close>

fun formatTimestamps :: "obj \<Rightarrow> exn + obj" where
  "formatTimestamps [] = Inr []"
| "formatTimestamps ((property, v) # entries) =
     bind_exn
       (if includes_str (toLowerCase property) ''timestamp''
        then bind_exn (formatDateToIsoString v) (\<lambda>s. Inr (JStr s))
        else Inr v) (\<lambda>v'.
     bind_exn (formatTimestamps entries) (\<lambda>others. Inr ((property, v') # others)))"

text \<open>
  The part of the transformation after the configuration document is parsed. The line
  it writes to the console is left out.
\<close>

definition cleanedUp_body :: "builtins \<Rightarrow> jsval \<Rightarrow> obj \<Rightarrow> exn + TransformedPluginEvent" where
  "cleanedUp_body b transformationConfig row =
     bind_exn (js_get transformationConfig ''propertyColumns'') (\<lambda>propertyColumns.
     bind_exn (js_get propertyColumns ''event'') (\<lambda>keyEvent.
     bind_exn (js_get propertyColumns ''timestamp'') (\<lambda>keyTimestamp.
     bind_exn (js_get propertyColumns ''distinctId'') (\<lambda>keyDistinctId.
     bind_exn (js_get transformationConfig ''dataSource'') (\<lambda>source.
     bind_exn (js_get transformationConfig ''replacements'') (\<lambda>replacements.
     bind_exn (stringOf keyEvent) (\<lambda>eventColumn.
     bind_exn (stringOf keyTimestamp) (\<lambda>timestampColumn.
     bind_exn (stringOf keyDistinctId) (\<lambda>distinctIdColumn.
     bind_exn (js_get transformationConfig ''unmatchedUserDefault'') (\<lambda>unmatchedUserDefault.
       let ev = rowEitherCase row eventColumn;
           unformattedTimestamp = rowEitherCase row timestampColumn;
           raw_distinct_id = rowEitherCase row distinctIdColumn;
           distinct_id = (if truthy raw_distinct_id then raw_distinct_id
                          else unmatchedUserDefault);
           specialColumns = [keyEvent, keyTimestamp, keyDistinctId, source]
       in
     bind_exn (formatRow b replacements eventColumn specialColumns row (map fst row) [])
       (\<lambda>formattedRow.
       let kept = filter (\<lambda>(k, v). v \<noteq> JUndefined \<and> v \<noteq> JNull) formattedRow in
     bind_exn (formatDateToIsoString unformattedTimestamp) (\<lambda>timestamp.
     bind_exn (formatTimestamps kept) (\<lambda>formatted.
       Inr \<lparr> event = ev,
             properties =
               obj_assign
                 [(''timestamp'', JStr timestamp), (''distinct_id'', distinct_id),
                  (''source'', source)]
                 formatted \<rparr>)))))))))))))"

definition cleanedUp_transform ::
  "builtins \<Rightarrow> attachments \<Rightarrow> obj \<Rightarrow> exn + TransformedPluginEvent" where
  "cleanedUp_transform b att row =
     (case propertyConfigJson att of
        None \<Rightarrow> Inl (Error ''Configuration JSON file not provided!'')
      | Some file \<Rightarrow>
          (case JSON_parse b (JStr (contents file)) of
             Inl e \<Rightarrow> Inl (Error ''Invalid JSON was provided!'')
           | Inr transformationConfig \<Rightarrow> cleanedUp_body b transformationConfig row))"

subsection \<open>The registry\<close>

text \<open>
  \<^verbatim>\<open>transformations[config.transformationName]\<close>: a name that the table lacks (such as
  \<^verbatim>\<open>Predefined Fields\<close>) gives \<^verbatim>\<open>undefined\<close>, and calling its \<^verbatim>\<open>transform\<close> throws.
\<close>

definition transformations ::
  "string \<Rightarrow> (builtins \<Rightarrow> meta \<Rightarrow> obj \<Rightarrow> exn + TransformedPluginEvent) option" where
  "transformations name =
     (if name = ''default'' then Some (\<lambda>b m row. default_transform b row)
      else if name = ''JSON Map'' then Some (\<lambda>b m row. jsonMap_transform b (attachments m) row)
      else if name = ''passthrough'' then Some (\<lambda>b m row. passthrough_transform row)
      else if name = ''Cleaned-Up Properties'' then
        Some (\<lambda>b m row. cleanedUp_transform b (attachments m) row)
      else None)"

definition transformRow :: "builtins \<Rightarrow> meta \<Rightarrow> obj \<Rightarrow> exn + TransformedPluginEvent" where
  "transformRow b m row =
     (case transformations (transformationName (config m)) of
        None \<Rightarrow> Inl TypeError
      | Some t \<Rightarrow> t b m row)"

text \<open>The loop that transforms the fetched rows: the first exception leaves it.\<close>

fun transformRows ::
  "(obj \<Rightarrow> exn + TransformedPluginEvent) \<Rightarrow> obj list \<Rightarrow> exn + TransformedPluginEvent list" where
  "transformRows t [] = Inr []"
| "transformRows t (row # rows) =
     (case t row of
        Inl e \<Rightarrow> Inl e
      | Inr ev \<Rightarrow>
          (case transformRows t rows of
             Inl e \<Rightarrow> Inl e
           | Inr eventsToIngest \<Rightarrow> Inr (ev # eventsToIngest)))"

section \<open>The import job\<close>

text \<open>\<open>executeQuery\<close> catches the rejection of the connection and returns it as a value.\<close>

definition executeQuery :: "builtins \<Rightarrow> sql \<Rightarrow> ExecuteQueryResponse" where
  "executeQuery b query =
     (case execute b query of
        Inl err \<Rightarrow> \<lparr> error = Some err, queryResult = None \<rparr>
      | Inr rows \<Rightarrow> \<lparr> error = None, queryResult = rows \<rparr>)"

text \<open>
  \<^verbatim>\<open>!queryResponse || queryResponse.error || !queryResponse.queryResult\<close>: the response
  itself is always an object, and an array of rows, even empty, is truthy.
\<close>

definition fetchFailed :: "ExecuteQueryResponse \<Rightarrow> bool" where
  "fetchFailed queryResponse =
     (error queryResponse \<noteq> None \<or> queryResult queryResponse = None)"

text \<open>
  One run of a job leaves: the exception that ended it, if any; the cache; the lines
  written to the console; the statements sent to Snowflake; the events handed to
  \<^verbatim>\<open>posthog.capture\<close>; and the invocations enqueued with \<^verbatim>\<open>runIn\<close>, each with its
  payload and its delay in seconds. Every list is in the order of the calls.
\<close>

record outcome =
  thrown :: "exn option"
  cacheAfter :: kv
  console :: "log_entry list"
  executed :: "sql list"
  captured :: "TransformedPluginEvent list"
  runIn :: "(ImportEventsJobPayload \<times> number) list"

text \<open>The offset computed from the checkpoint for a batch that is not a retry.\<close>

definition effectiveOffset :: "meta \<Rightarrow> kv \<Rightarrow> number" where
  "effectiveOffset m cache =
     js_add (initialOffset (global m))
       (js_mul (kv_get cache REDIS_OFFSET_KEY 0) (batchSize (config m)))"

text \<open>
  \<^verbatim>\<open>if (payload.offset) { offset = payload.offset } else { ... }\<close>
\<close>

definition batchOffset :: "meta \<Rightarrow> kv \<Rightarrow> ImportEventsJobPayload \<Rightarrow> number" where
  "batchOffset m cache payload =
     (case offset payload of
        None \<Rightarrow> effectiveOffset m cache
      | Some payloadOffset \<Rightarrow>
          if payloadOffset \<noteq> 0 then payloadOffset else effectiveOffset m cache)"

definition batchQuery :: "meta \<Rightarrow> number \<Rightarrow> sql" where
  "batchQuery m off =
     SelectBatch (sanitizeSqlIdentifier (table (config m))) (sanitizeSql (orderBy (config m)))
       (batchSize (config m)) [off]"

definition nextRetrySeconds :: "ImportEventsJobPayload \<Rightarrow> number" where
  "nextRetrySeconds payload = js_mul (js_pow 2 (retriesPerformedSoFar payload)) 3"

text \<open>
  The job itself. In its first branch \<^verbatim>\<open>payload.offset\<close> is truthy, so \<open>batchOffset\<close> is
  \<^verbatim>\<open>payload.offset\<close> there. After a failed fetch there is no \<^verbatim>\<open>return\<close>: the run goes
  on with no rows.
\<close>

definition importAndIngestEvents ::
  "builtins \<Rightarrow> meta \<Rightarrow> ImportEventsJobPayload \<Rightarrow> kv \<Rightarrow> outcome" where
  "importAndIngestEvents b m payload cache =
     (if truthy_number (offset payload) \<and> retriesPerformedSoFar payload \<ge> 15 then
        \<lparr> thrown = None, cacheAfter = cache,
          console =
            [UnableToProcessSkipped (batchOffset m cache payload)
               (js_add (batchOffset m cache payload) (batchSize (config m)))],
          executed = [], captured = [], runIn = [] \<rparr>
      else
        let off = batchOffset m cache payload in
        if importMechanism (config m) = HISTORICAL \<and> off > totalRows (global m) then
          \<lparr> thrown = None, cacheAfter = cache, console = [DoneImportingHistorical],
            executed = [], captured = [], runIn = [] \<rparr>
        else
          let queryResponse = executeQuery b (batchQuery m off);
              retryLog =
                (if fetchFailed queryResponse then
                   [UnableToProcessRetrying off (js_add off (batchSize (config m)))
                      (nextRetrySeconds payload) (error queryResponse)]
                 else []);
              retryJob =
                (if fetchFailed queryResponse then
                   [(payload\<lparr>retriesPerformedSoFar := retriesPerformedSoFar payload + 1\<rparr>,
                     nextRetrySeconds payload)]
                 else []);
              rows = (case queryResult queryResponse of None \<Rightarrow> [] | Some rs \<Rightarrow> rs)
          in
            (case transformRows (transformRow b m) rows of
               Inl e \<Rightarrow>
                 \<lparr> thrown = Some e, cacheAfter = cache, console = retryLog,
                   executed = [batchQuery m off], captured = [], runIn = retryJob \<rparr>
             | Inr eventsToIngest \<Rightarrow>
                 \<lparr> thrown = None, cacheAfter = kv_incr cache REDIS_OFFSET_KEY,
                   console =
                     retryLog @
                     [ProcessedRows off (js_add off (batchSize (config m)))
                        (length eventsToIngest)],
                   executed = [batchQuery m off], captured = eventsToIngest,
                   runIn =
                     retryJob @
                     [(\<lparr> offset = None, retriesPerformedSoFar = 0 \<rparr>,
                       frequency (config m))] \<rparr>))"

section \<open>Setup and teardown\<close>

text \<open>
  \<open>setupPlugin\<close>, from the count query on; the configuration is a record, so each
  option that the function requires is there. It gives back the exception or the
  \<open>global\<close> it has filled, the cache, the storage and the jobs it has enqueued.
\<close>

definition loadInitialOffset :: "kv \<Rightarrow> number" where
  "loadInitialOffset storage = kv_get storage REDIS_OFFSET_KEY 0"

definition setupPlugin ::
  "builtins \<Rightarrow> config \<Rightarrow> kv \<Rightarrow> kv \<Rightarrow>
   (exn + global) \<times> kv \<times> kv \<times> (ImportEventsJobPayload \<times> number) list" where
  "setupPlugin b cfg cache storage =
     (let totalRowsResult = executeQuery b (SelectCount (sanitizeSqlIdentifier (table cfg)))
      in
        if fetchFailed totalRowsResult then
          (Inl (QueryFailedBecause (error totalRowsResult)), cache, storage, [])
        else
          (case queryResult totalRowsResult of
             None \<Rightarrow> (Inl (QueryFailedBecause (error totalRowsResult)), cache, storage, [])
           | Some [] \<Rightarrow> (Inl TypeError, cache, storage, [])
           | Some (firstRow # others) \<Rightarrow>
               let rowCount = ToNumber b (obj_get firstRow ''ROW_COUNT'');
                   totalRowsSnapshot = storage REDIS_TOTAL_ROWS_KEY;
                   storage1 =
                     (if importMechanism cfg = HISTORICAL \<and> \<not> truthy_number totalRowsSnapshot
                      then kv_set storage REDIS_TOTAL_ROWS_KEY rowCount else storage);
                   total =
                     (if importMechanism cfg = HISTORICAL then
                        (case totalRowsSnapshot of
                           None \<Rightarrow> rowCount
                         | Some snapshot \<Rightarrow> if snapshot \<noteq> 0 then snapshot else rowCount)
                      else rowCount);
                   off = loadInitialOffset storage1;
                   cache1 = kv_set cache REDIS_OFFSET_KEY (js_div off (batchSize cfg))
               in
                 if frequency cfg = 0 then
                   (Inl (Error ''Invalid frequency input! Please insert a number in seconds.''),
                    cache1, storage1, [])
                 else
                   (Inr \<lparr> initialOffset = off, totalRows = total \<rparr>, cache1, storage1,
                    [(\<lparr> offset = None, retriesPerformedSoFar = 0 \<rparr>, frequency cfg)])))"

text \<open>\<open>teardownPlugin\<close> gives back the storage after its write.\<close>

definition offsetToStore :: "config \<Rightarrow> global \<Rightarrow> kv \<Rightarrow> number" where
  "offsetToStore cfg g cache =
     (let redisOffset = kv_get cache REDIS_OFFSET_KEY 0;
          workerOffset = js_mul redisOffset (batchSize cfg)
      in if workerOffset > totalRows g then totalRows g else workerOffset)"

definition teardownPlugin :: "config \<Rightarrow> global \<Rightarrow> kv \<Rightarrow> kv \<Rightarrow> kv" where
  "teardownPlugin cfg g cache storage =
     kv_set storage REDIS_OFFSET_KEY (offsetToStore cfg g cache)"

section \<open>Runs in sequence\<close>


text \<open>
  The job scheduler, followed along the invocations that a successful run enqueues:
  each has the payload \<^verbatim>\<open>{ retriesPerformedSoFar: 0 }\<close>, meets the source as it answers
  at that time, and finds the cache as the run before left it.
\<close>

fun freshRuns :: "builtins list \<Rightarrow> meta \<Rightarrow> kv \<Rightarrow> outcome list" where
  "freshRuns [] m cache = []"
| "freshRuns (b # bs) m cache =
     importAndIngestEvents b m \<lparr> offset = None, retriesPerformedSoFar = 0 \<rparr> cache #
     freshRuns bs m
       (cacheAfter
          (importAndIngestEvents b m \<lparr> offset = None, retriesPerformedSoFar = 0 \<rparr> cache))"




text \<open>A start of the process and the first job that it enqueues.\<close>

definition firstRunAfterSetup ::
  "builtins \<Rightarrow> config \<Rightarrow> attachments \<Rightarrow> kv \<Rightarrow> kv \<Rightarrow> outcome option" where
  "firstRunAfterSetup b cfg att cache storage =
     (case setupPlugin b cfg cache storage of
        (Inr g, cache1, storage1, (payload, delay) # jobs) \<Rightarrow>
          Some (importAndIngestEvents b \<lparr> config = cfg, global = g, attachments = att \<rparr>
                  payload cache1)
      | _ \<Rightarrow> None)"

section \<open>Example environments\<close>

definition exampleRow :: obj where
  "exampleRow =
     [(''event'', JStr ''click''), (''timestamp'', JStr ''2023-01-01''),
      (''distinct_id'', JStr ''u1''), (''properties'', JStr ''{\"a\":1}'')]"

definition exampleRuntime :: "(sql \<Rightarrow> exn + obj list option) \<Rightarrow> builtins" where
  "exampleRuntime connection =
     \<lparr> JSON_parse =
         (\<lambda>v. if v = JStr ''{\"a\":1}'' then Inr (JObj [(''a'', JNum 1)]) else Inl SyntaxError),
       ToString = (\<lambda>v. []),
       ToNumber = (\<lambda>v. case v of JNum n \<Rightarrow> n | _ \<Rightarrow> 0),
       execute = connection \<rparr>"

definition unreachableSource :: builtins where
  "unreachableSource = exampleRuntime (\<lambda>query. Inl (DriverError ''connection lost''))"

definition answeringSource :: builtins where
  "answeringSource =
     exampleRuntime
       (\<lambda>query. case query of
          SelectCount t \<Rightarrow> Inr (Some [[(''ROW_COUNT'', JNum 100)]])
        | SelectBatch t c l binds \<Rightarrow> Inr (Some [exampleRow]))"

definition exampleConfig :: config where
  "exampleConfig =
     \<lparr> table = ''events'', orderBy = ''inserted_on'', batchSize = 10, frequency = 60,
       transformationName = ''default'', importMechanism = CONTINUOUS \<rparr>"

definition noAttachments :: attachments where
  "noAttachments = \<lparr> rowToEventMap = None, propertyConfigJson = None \<rparr>"

definition exampleMeta :: meta where
  "exampleMeta =
     \<lparr> config = exampleConfig, global = \<lparr> initialOffset = 0, totalRows = 100 \<rparr>,
       attachments = noAttachments \<rparr>"

definition historicalMeta :: meta where
  "historicalMeta =
     \<lparr> config = exampleConfig\<lparr>importMechanism := HISTORICAL\<rparr>,
       global = \<lparr> initialOffset = 0, totalRows = 25 \<rparr>, attachments = noAttachments \<rparr>"




section \<open>Properties\<close>

lemmas example_defs =
  answeringSource_def unreachableSource_def exampleRuntime_def exampleMeta_def
  historicalMeta_def exampleConfig_def exampleRow_def noAttachments_def

lemmas run_defs =
  importAndIngestEvents_def executeQuery_def fetchFailed_def batchQuery_def batchOffset_def
  effectiveOffset_def nextRetrySeconds_def kv_get_def kv_incr_def kv_set_def
  REDIS_OFFSET_KEY_def REDIS_TOTAL_ROWS_KEY_def transformRow_def transformations_def
  default_transform_def obj_get_def

subsection \<open>Rounding\<close>

lemma bitLength_le: "n < 2 ^ k \<Longrightarrow> bitLength n \<le> k"
proof (induction n arbitrary: k rule: bitLength.induct)
  case (1 n)
  show ?case
  proof (cases "n = 0")
    case True
    then show ?thesis by (simp add: bitLength.simps)
  next
    case False
    then obtain j where k: "k = Suc j" using "1.prems" by (cases k) auto
    have "n div 2 < 2 ^ j" using "1.prems" k by auto
    then have "bitLength (n div 2) \<le> j" using "1.IH"[OF False] by simp
    then show ?thesis using False k by (subst bitLength.simps) simp
  qed
qed

lemma roundHalfEven_of_int: "roundHalfEven (of_int z) = z"
  by (simp add: roundHalfEven_def)

text \<open>A whole number below \<open>2 ^ 53\<close> is a binary64 value: rounding leaves it as it is.\<close>

lemma binary64_of_nat:
  assumes "n < 2 ^ 53"
  shows "binary64 (of_nat n) = of_nat n"
proof (cases "n = 0")
  case True
  then show ?thesis by (simp add: binary64_def)
next
  case False
  define e where "e = exponentOf (of_nat n) - 52"
  have "bitLength n \<le> 53" using assms by (rule bitLength_le)
  moreover have "exponentOf (of_nat n) = int (bitLength n) - 1"
    using False by (simp add: exponentOf_def)
  ultimately have e: "e \<le> 0" by (simp add: e_def)
  define k where "k = nat (- e)"
  have p: "pow2 e = 1 / 2 ^ k"
    using e by (cases "e = 0") (simp_all add: pow2_def k_def)
  have "of_nat n / pow2 e = (of_int (int (n * 2 ^ k)) :: rat)"
    by (simp add: p)
  then have "roundHalfEven (of_nat n / pow2 e) = int (n * 2 ^ k)"
    using roundHalfEven_of_int by metis
  then have "of_int (roundHalfEven (of_nat n / pow2 e)) * pow2 e = (of_nat n :: rat)"
    by (simp add: p)
  then show ?thesis using False by (simp add: binary64_def e_def Let_def)
qed

lemma binary64_numeral:
  "(numeral w :: nat) < 2 ^ 53 \<Longrightarrow> binary64 (numeral w) = numeral w"
  using binary64_of_nat[of "numeral w"] by simp

lemma binary64_zero: "binary64 0 = 0"
  by (simp add: binary64_def)

lemma binary64_one: "binary64 1 = 1"
  using binary64_of_nat[of 1] by simp

lemmas js_whole =
  js_add_def js_mul_def js_div_def js_pow_def binary64_numeral binary64_zero binary64_one

lemma js_add_of_nat: "a + b < 2 ^ 53 \<Longrightarrow> js_add (of_nat a) (of_nat b) = of_nat (a + b)"
  using binary64_of_nat[of "a + b"] by (simp add: js_add_def)

lemma js_mul_of_nat: "a * b < 2 ^ 53 \<Longrightarrow> js_mul (of_nat a) (of_nat b) = of_nat (a * b)"
  using binary64_of_nat[of "a * b"] by (simp add: js_mul_def)

lemma js_div_of_nat:
  assumes "0 < s" and "k < 2 ^ 53"
  shows "js_div (of_nat (k * s)) (of_nat s) = of_nat k"
  using assms binary64_of_nat[of k] by (simp add: js_div_def)


subsection \<open>The counter and the offset\<close>


lemma failed_fetch_no_rows:
  assumes "fetchFailed (executeQuery b query)"
  shows "queryResult (executeQuery b query) = None"
  using assms by (auto simp: fetchFailed_def executeQuery_def split: sum.splits)

text \<open>The effective offset of a state of whole numbers.\<close>

lemma effectiveOffset_of_nat:
  assumes "initialOffset (global m) = of_nat a"
    and "kv_get cache REDIS_OFFSET_KEY 0 = of_nat c"
    and "batchSize (config m) = of_nat s"
    and "a + c * s < 2 ^ 53"
  shows "effectiveOffset m cache = of_nat (a + c * s)"
proof -
  have "c * s < 2 ^ 53" using assms(4) by simp
  then have "js_mul (of_nat c) (of_nat s) = of_nat (c * s)" by (rule js_mul_of_nat)
  then show ?thesis
    using assms js_add_of_nat[of a "c * s"] by (simp add: effectiveOffset_def)
qed

subsection \<open>A failed fetch\<close>

text \<open>
  After a failed fetch the run enqueues the retry and then goes on: with no rows it
  reports zero events, advances the counter and enqueues the next normal run as well.
\<close>

lemma failed_fetch_falls_through:
  assumes "\<not> (truthy_number (offset payload) \<and> retriesPerformedSoFar payload \<ge> 15)"
    and "\<not> (importMechanism (config m) = HISTORICAL
            \<and> batchOffset m cache payload > totalRows (global m))"
    and "fetchFailed (executeQuery b (batchQuery m (batchOffset m cache payload)))"
  shows "runIn (importAndIngestEvents b m payload cache) =
           [(payload\<lparr>retriesPerformedSoFar := retriesPerformedSoFar payload + 1\<rparr>,
             nextRetrySeconds payload),
            (\<lparr> offset = None, retriesPerformedSoFar = 0 \<rparr>, frequency (config m))]"
    and "cacheAfter (importAndIngestEvents b m payload cache) = kv_incr cache REDIS_OFFSET_KEY"
proof -
  note rows = failed_fetch_no_rows[OF assms(3)]
  show "runIn (importAndIngestEvents b m payload cache) =
           [(payload\<lparr>retriesPerformedSoFar := retriesPerformedSoFar payload + 1\<rparr>,
             nextRetrySeconds payload),
            (\<lparr> offset = None, retriesPerformedSoFar = 0 \<rparr>, frequency (config m))]"
    using assms rows by (auto simp add: importAndIngestEvents_def Let_def)
  show "cacheAfter (importAndIngestEvents b m payload cache) = kv_incr cache REDIS_OFFSET_KEY"
    using assms rows by (auto simp add: importAndIngestEvents_def Let_def)
qed

text \<open>
  C1. Every run that is neither abandoned nor terminated should enqueue exactly one
  successor, and a run whose fetch fails only the retry, without advancing the
  counter. The code does not: with the source unreachable, the first run of a fresh
  process enqueues the retry (in 3 seconds) and the normal successor (after the
  configured 60 seconds), and the counter goes from 0 to 1.
\<close>

theorem failed_fetch_enqueues_two_jobs:
  "runIn (importAndIngestEvents unreachableSource exampleMeta
            \<lparr> offset = None, retriesPerformedSoFar = 0 \<rparr> Map.empty) =
     [(\<lparr> offset = None, retriesPerformedSoFar = 1 \<rparr>, 3),
      (\<lparr> offset = None, retriesPerformedSoFar = 0 \<rparr>, 60)] \<and>
   cacheAfter (importAndIngestEvents unreachableSource exampleMeta
            \<lparr> offset = None, retriesPerformedSoFar = 0 \<rparr> Map.empty) REDIS_OFFSET_KEY = Some 1"
  by (simp add: run_defs example_defs js_whole Let_def)

subsection \<open>Abandonment\<close>




subsection \<open>Restart\<close>

text \<open>
  \<open>setupPlugin\<close> puts the stored offset in \<open>initialOffset\<close> and, divided by the batch
  size, in the counter as well, and the job adds the two: when the stored offset is a
  whole multiple of the batch size, the first batch after a restart starts at twice
  the stored offset.
\<close>

lemma setupPlugin_initialOffset:
  assumes "setupPlugin b cfg cache storage = (Inr g, rest)"
  shows "initialOffset g = loadInitialOffset storage"
  using assms
  by (auto simp add: setupPlugin_def Let_def kv_get_def kv_set_def
      loadInitialOffset_def REDIS_OFFSET_KEY_def REDIS_TOTAL_ROWS_KEY_def
      split: if_splits option.splits list.splits)

lemma setupPlugin_counter:
  assumes "setupPlugin b cfg cache storage = (Inr g, cache1, rest)"
  shows "kv_get cache1 REDIS_OFFSET_KEY 0 = js_div (loadInitialOffset storage) (batchSize cfg)"
  using assms
  by (auto simp add: setupPlugin_def Let_def kv_get_def kv_set_def
      loadInitialOffset_def REDIS_OFFSET_KEY_def REDIS_TOTAL_ROWS_KEY_def
      split: if_splits option.splits list.splits)

lemma setupPlugin_doubles:
  assumes "setupPlugin b cfg cache storage = (Inr g, cache1, rest)"
    and "loadInitialOffset storage = of_nat (k * s)" and "batchSize cfg = of_nat s"
    and "0 < s" and "2 * (k * s) < 2 ^ 53"
  shows "effectiveOffset \<lparr> config = cfg, global = g, attachments = att \<rparr> cache1 =
         2 * loadInitialOffset storage"
proof -
  have "k \<le> k * s" using assms(4) by (cases s) simp_all
  then have k: "k < 2 ^ 53" using assms(5) by linarith
  have c: "kv_get cache1 REDIS_OFFSET_KEY 0 = of_nat k"
    using setupPlugin_counter[OF assms(1)] assms(2,3) js_div_of_nat[OF assms(4) k] by simp
  have i: "initialOffset g = of_nat (k * s)"
    using setupPlugin_initialOffset[OF assms(1)] assms(2) by simp
  have "effectiveOffset \<lparr> config = cfg, global = g, attachments = att \<rparr> cache1 =
        of_nat (k * s + k * s)"
    using i c assms(3,5) by (intro effectiveOffset_of_nat) simp_all
  then show ?thesis using assms(2) by simp
qed

text \<open>
  C3. After a restart with the offset O in the durable store, the first fresh batch
  should be fetched at O. The code does not: with the stored offset 10 and the batch
  size 10, the first job after \<open>setupPlugin\<close> queries the source at offset 20, so the
  rows 10 to 19 are never fetched.
\<close>

theorem restart_fetches_at_twice_the_offset:
  "map_option executed
     (firstRunAfterSetup answeringSource exampleConfig noAttachments Map.empty
        [REDIS_OFFSET_KEY \<mapsto> 10]) =
   Some [SelectBatch (sanitizeSqlIdentifier ''events'') ''inserted_on'' 10 [20]]"
  by (simp add: firstRunAfterSetup_def setupPlugin_def loadInitialOffset_def run_defs
      example_defs js_whole Let_def sanitizeSql_def is_word_char_def)

subsection \<open>Backoff\<close>

text \<open>
  C4. When the fetch of a run with \<open>n\<close> retries behind it fails, for \<open>n\<close> from 0 to 14,
  the delay computed for the retry is \<open>3 * 2 ^ n\<close> seconds, and the retry is enqueued
  with this delay and the count \<open>n + 1\<close>.
\<close>

theorem retry_delay_exponential:
  assumes "retriesPerformedSoFar payload = n" and "n \<le> 14"
    and "\<not> (importMechanism (config m) = HISTORICAL
            \<and> batchOffset m cache payload > totalRows (global m))"
    and "fetchFailed (executeQuery b (batchQuery m (batchOffset m cache payload)))"
  shows "nextRetrySeconds payload = 3 * 2 ^ n \<and>
         (payload\<lparr>retriesPerformedSoFar := n + 1\<rparr>, 3 * 2 ^ n)
           \<in> set (runIn (importAndIngestEvents b m payload cache))"
proof -
  have "(2::nat) ^ n \<le> 2 ^ 14" using assms(2) by (intro power_increasing) simp_all
  then have small: "(2::nat) ^ n < 2 ^ 53" "(2::nat) ^ n * 3 < 2 ^ 53" by simp_all
  have "js_pow 2 n = of_nat (2 ^ n)"
    using binary64_of_nat[OF small(1)] by (simp add: js_pow_def)
  moreover have "js_mul (of_nat (2 ^ n)) (of_nat 3) = of_nat (2 ^ n * 3)"
    using small(2) by (rule js_mul_of_nat)
  ultimately have d: "nextRetrySeconds payload = 3 * 2 ^ n"
    using assms(1) by (simp add: nextRetrySeconds_def)
  have na: "\<not> (truthy_number (offset payload) \<and> retriesPerformedSoFar payload \<ge> 15)"
    using assms(1,2) by simp
  note rows = failed_fetch_no_rows[OF assms(4)]
  show ?thesis
    using d na assms(1,3,4) rows
    by (simp add: importAndIngestEvents_def Let_def)
qed

theorem retry_delay_exponential_witness:
  "nextRetrySeconds \<lparr> offset = None, retriesPerformedSoFar = 3 \<rparr> = 24 \<and>
   (\<lparr> offset = None, retriesPerformedSoFar = 4 \<rparr>, 24)
     \<in> set (runIn (importAndIngestEvents unreachableSource exampleMeta
                     \<lparr> offset = None, retriesPerformedSoFar = 3 \<rparr> Map.empty))"
proof -
  let ?p = "\<lparr> offset = None, retriesPerformedSoFar = 3 \<rparr> :: ImportEventsJobPayload"
  have 1: "retriesPerformedSoFar ?p = 3" by simp
  have 2: "(3::nat) \<le> 14" by simp
  have 3: "\<not> (importMechanism (config exampleMeta) = HISTORICAL
            \<and> batchOffset exampleMeta Map.empty ?p > totalRows (global exampleMeta))"
    by (simp add: example_defs)
  have 4: "fetchFailed (executeQuery unreachableSource
             (batchQuery exampleMeta (batchOffset exampleMeta Map.empty ?p)))"
    by (simp add: fetchFailed_def executeQuery_def example_defs)
  show ?thesis
    using retry_delay_exponential[OF 1 2 3 4] by simp
qed

subsection \<open>The end of a historical import\<close>

text \<open>
  C5. In the historical mode, a run whose offset exceeds the snapshot of the row count
  ends at once: it sends no query, captures no event and enqueues no job; it does not
  throw and leaves the counter as it was.
\<close>

theorem historical_termination:
  assumes "importMechanism (config m) = HISTORICAL"
    and "batchOffset m cache payload > totalRows (global m)"
  shows "executed (importAndIngestEvents b m payload cache) = [] \<and>
         captured (importAndIngestEvents b m payload cache) = [] \<and>
         runIn (importAndIngestEvents b m payload cache) = [] \<and>
         thrown (importAndIngestEvents b m payload cache) = None \<and>
         cacheAfter (importAndIngestEvents b m payload cache) = cache"
  using assms by (simp add: importAndIngestEvents_def Let_def)

theorem historical_termination_witness:
  "executed (importAndIngestEvents answeringSource historicalMeta
      \<lparr> offset = None, retriesPerformedSoFar = 0 \<rparr> [REDIS_OFFSET_KEY \<mapsto> 3]) = [] \<and>
   captured (importAndIngestEvents answeringSource historicalMeta
      \<lparr> offset = None, retriesPerformedSoFar = 0 \<rparr> [REDIS_OFFSET_KEY \<mapsto> 3]) = [] \<and>
   runIn (importAndIngestEvents answeringSource historicalMeta
      \<lparr> offset = None, retriesPerformedSoFar = 0 \<rparr> [REDIS_OFFSET_KEY \<mapsto> 3]) = [] \<and>
   thrown (importAndIngestEvents answeringSource historicalMeta
      \<lparr> offset = None, retriesPerformedSoFar = 0 \<rparr> [REDIS_OFFSET_KEY \<mapsto> 3]) = None \<and>
   cacheAfter (importAndIngestEvents answeringSource historicalMeta
      \<lparr> offset = None, retriesPerformedSoFar = 0 \<rparr> [REDIS_OFFSET_KEY \<mapsto> 3]) =
     [REDIS_OFFSET_KEY \<mapsto> 3]"
proof -
  let ?p = "\<lparr> offset = None, retriesPerformedSoFar = 0 \<rparr> :: ImportEventsJobPayload"
  have 1: "importMechanism (config historicalMeta) = HISTORICAL"
    by (simp add: historicalMeta_def)
  have 2: "batchOffset historicalMeta [REDIS_OFFSET_KEY \<mapsto> 3] ?p
             > totalRows (global historicalMeta)"
    by (simp add: historicalMeta_def exampleConfig_def batchOffset_def effectiveOffset_def
        kv_get_def js_whole)
  show ?thesis
    using historical_termination[OF 1 2] .
qed

subsection \<open>Consecutive batches\<close>


lemma freshRuns_length: "length (freshRuns bs m cache) = length bs"
  by (induction bs arbitrary: cache) simp_all









subsection \<open>The durable checkpoint\<close>

lemma load_after_teardown:
  "loadInitialOffset (teardownPlugin cfg g cache storage) = offsetToStore cfg g cache"
  by (simp add: loadInitialOffset_def teardownPlugin_def kv_get_def kv_set_def)

text \<open>
  C7, as stated: the offset that \<open>teardownPlugin\<close> is to persist, the counter times the
  batch size, comes back at the next start. It does not when it exceeds the row count:
  with the counter 3, the batch size 10 and 25 rows the offset is 30, but 25 is stored
  and loaded.
\<close>

theorem teardown_cap_breaks_round_trip:
  "js_mul (kv_get [REDIS_OFFSET_KEY \<mapsto> 3] REDIS_OFFSET_KEY 0) (batchSize exampleConfig) = 30 \<and>
   loadInitialOffset
     (teardownPlugin exampleConfig \<lparr> initialOffset = 0, totalRows = 25 \<rparr>
        [REDIS_OFFSET_KEY \<mapsto> 3] Map.empty) = 25"
  by (simp add: loadInitialOffset_def teardownPlugin_def offsetToStore_def kv_get_def
      kv_set_def exampleConfig_def js_whole Let_def)

text \<open>
  C7, amended. Let O be the offset that \<open>teardownPlugin\<close> is to persist, the counter
  times the batch size. The \<open>setupPlugin\<close> of the next start, when it succeeds, loads O
  as the initial offset if O does not exceed the row count, and the row count
  otherwise.
\<close>

theorem persisted_offset_reloaded:
  assumes "setupPlugin b cfg' cache' (teardownPlugin cfg g cache storage) = (Inr g', rest)"
    and "js_mul (kv_get cache REDIS_OFFSET_KEY 0) (batchSize cfg) = workerOffset"
  shows "initialOffset g' = (if workerOffset > totalRows g then totalRows g else workerOffset)"
proof -
  have "initialOffset g' = loadInitialOffset (teardownPlugin cfg g cache storage)"
    using setupPlugin_initialOffset[OF assms(1)] .
  also have "\<dots> = offsetToStore cfg g cache" by (rule load_after_teardown)
  finally show ?thesis using assms(2) by (simp add: offsetToStore_def Let_def)
qed

theorem persisted_offset_reloaded_witness:
  "\<exists>g' rest.
     setupPlugin answeringSource exampleConfig Map.empty
       (teardownPlugin exampleConfig \<lparr> initialOffset = 0, totalRows = 100 \<rparr>
          [REDIS_OFFSET_KEY \<mapsto> 3] Map.empty) = (Inr g', rest) \<and>
     initialOffset g' = 30"
proof -
  let ?st = "teardownPlugin exampleConfig \<lparr> initialOffset = 0, totalRows = 100 \<rparr>
           [REDIS_OFFSET_KEY \<mapsto> 3] Map.empty"
  obtain r rest where s: "setupPlugin answeringSource exampleConfig Map.empty ?st = (r, rest)"
    by (cases "setupPlugin answeringSource exampleConfig Map.empty ?st")
  have "\<exists>g. r = Inr g"
    using s
    by (auto simp add: setupPlugin_def executeQuery_def fetchFailed_def example_defs Let_def)
  then obtain g where g: "r = Inr g" ..
  have 1: "setupPlugin answeringSource exampleConfig Map.empty ?st = (Inr g, rest)"
    using s g by simp
  have 2: "js_mul (kv_get [REDIS_OFFSET_KEY \<mapsto> 3] REDIS_OFFSET_KEY 0)
             (batchSize exampleConfig) = 30"
    by (simp add: kv_get_def exampleConfig_def js_whole)
  have "initialOffset g = 30" using persisted_offset_reloaded[OF 1 2] by simp
  then show ?thesis using 1 by blast
qed

subsection \<open>Transformations\<close>

text \<open>
  C8. Given that \<^verbatim>\<open>JSON.parse\<close> reads the text \<^verbatim>\<open>{"a":1}\<close> as the object with the one
  property \<open>a\<close> of value 1, the default transformation turns the row with the event
  \<^verbatim>\<open>click\<close>, the timestamp \<^verbatim>\<open>2023-01-01\<close>, the distinct id \<^verbatim>\<open>u1\<close> and the properties
  \<^verbatim>\<open>{"a":1}\<close> into the event \<^verbatim>\<open>click\<close> whose properties are the timestamp, the
  distinct id, \<open>a\<close> = 1 and the source \<^verbatim>\<open>snowflake_import\<close>.
\<close>

theorem default_transform_scenario:
  assumes "JSON_parse b (JStr ''{\"a\":1}'') = Inr (JObj [(''a'', JNum 1)])"
  shows "default_transform b
           [(''event'', JStr ''click''), (''timestamp'', JStr ''2023-01-01''),
            (''distinct_id'', JStr ''u1''), (''properties'', JStr ''{\"a\":1}'')] =
         Inr \<lparr> event = JStr ''click'',
               properties =
                 [(''timestamp'', JStr ''2023-01-01''), (''distinct_id'', JStr ''u1''),
                  (''a'', JNum 1), (''source'', JStr ''snowflake_import'')] \<rparr>"
  using assms by (simp add: default_transform_def obj_get_def)

theorem default_transform_scenario_witness:
  "default_transform answeringSource exampleRow =
         Inr \<lparr> event = JStr ''click'',
               properties =
                 [(''timestamp'', JStr ''2023-01-01''), (''distinct_id'', JStr ''u1''),
                  (''a'', JNum 1), (''source'', JStr ''snowflake_import'')] \<rparr>"
proof -
  have 1: "JSON_parse answeringSource (JStr ''{\"a\":1}'') = Inr (JObj [(''a'', JNum 1)])"
    by (simp add: example_defs)
  show ?thesis using default_transform_scenario[OF 1] by (simp add: exampleRow_def)
qed

text \<open>A transformation that throws on the first row ends the run: nothing is captured,
  the counter stays and no job is enqueued.\<close>

lemma fatal_transform_aborts_run:
  assumes "\<not> (truthy_number (offset payload) \<and> retriesPerformedSoFar payload \<ge> 15)"
    and "\<not> (importMechanism (config m) = HISTORICAL
            \<and> batchOffset m cache payload > totalRows (global m))"
    and "queryResult (executeQuery b (batchQuery m (batchOffset m cache payload))) =
           Some (row # rows)"
    and "transformRow b m row = Inl e"
  shows "thrown (importAndIngestEvents b m payload cache) = Some e"
    and "captured (importAndIngestEvents b m payload cache) = []"
    and "runIn (importAndIngestEvents b m payload cache) = []"
    and "cacheAfter (importAndIngestEvents b m payload cache) = cache"
  using assms
  by (auto simp add: importAndIngestEvents_def Let_def fetchFailed_def executeQuery_def
      split: sum.splits)

text \<open>
  C9. For every row, the JSON Map transformation without the attachment
  \<^verbatim>\<open>rowToEventMap\<close> and the Cleaned-Up Properties transformation without the attachment
  \<^verbatim>\<open>propertyConfigJson\<close> throw an error; neither returns an event.
\<close>

theorem missing_attachment_is_fatal:
  "(rowToEventMap att = None \<longrightarrow>
      jsonMap_transform b att row =
        Inl (Error ''Row to event mapping JSON file not provided!'')) \<and>
   (propertyConfigJson att = None \<longrightarrow>
      cleanedUp_transform b att row = Inl (Error ''Configuration JSON file not provided!''))"
  by (simp add: jsonMap_transform_def cleanedUp_transform_def)

theorem missing_attachment_is_fatal_witness:
  "jsonMap_transform answeringSource noAttachments exampleRow =
     Inl (Error ''Row to event mapping JSON file not provided!'') \<and>
   cleanedUp_transform answeringSource noAttachments exampleRow =
     Inl (Error ''Configuration JSON file not provided!'')"
  using missing_attachment_is_fatal[of noAttachments answeringSource exampleRow]
  by (simp add: noAttachments_def)

text \<open>
  Within a run: when JSON Map is the configured transformation, its attachment is
  missing and the fetch gives at least one row, the run ends with that error before
  any event is captured, and it enqueues no job.
\<close>

lemma missing_rowToEventMap_aborts_run:
  assumes "transformationName (config m) = ''JSON Map''"
    and "rowToEventMap (attachments m) = None"
    and "\<not> (truthy_number (offset payload) \<and> retriesPerformedSoFar payload \<ge> 15)"
    and "\<not> (importMechanism (config m) = HISTORICAL
            \<and> batchOffset m cache payload > totalRows (global m))"
    and "queryResult (executeQuery b (batchQuery m (batchOffset m cache payload))) =
           Some (row # rows)"
  shows "thrown (importAndIngestEvents b m payload cache) =
           Some (Error ''Row to event mapping JSON file not provided!'')"
    and "captured (importAndIngestEvents b m payload cache) = []"
    and "runIn (importAndIngestEvents b m payload cache) = []"
proof -
  have t: "transformRow b m row = Inl (Error ''Row to event mapping JSON file not provided!'')"
    using assms(1,2) by (simp add: transformRow_def transformations_def jsonMap_transform_def)
  show "thrown (importAndIngestEvents b m payload cache) =
           Some (Error ''Row to event mapping JSON file not provided!'')"
    using fatal_transform_aborts_run(1)[OF assms(3,4,5) t] .
  show "captured (importAndIngestEvents b m payload cache) = []"
    using fatal_transform_aborts_run(2)[OF assms(3,4,5) t] .
  show "runIn (importAndIngestEvents b m payload cache) = []"
    using fatal_transform_aborts_run(3)[OF assms(3,4,5) t] .
qed

subsection \<open>A payload with the offset 0\<close>



end
